theory Spec2Isabelle
  imports Main
begin

section \<open>Library Inventory Manager\<close>

text \<open>
  A shallow embedding of \<^verbatim>\<open>Lab_Assignment-3/Library_manager.py\<close>: the classes
  \<open>Book\<close>, \<open>ReferenceBook\<close> and \<open>LibraryInventory\<close> and the command-line helpers
  that drive them.

  Python strings are modelled as \<open>string\<close>; a \<open>char\<close> stands for a code point
  below 256. Objects mutated in place become values that are passed in and returned.
  Calls of \<open>logger\<close> write to the log file only and are left out.
\<close>

subsection \<open>str.strip, str.lower and the operator in\<close>

text \<open>
  \<open>str.isspace\<close> on the code points below 256: TAB, LF, VT, FF, CR, the separators
  FS, GS, RS, US, the space, NEL (133) and the no-break space (160).
\<close>

definition py_isspace :: "char \<Rightarrow> bool" where
  "py_isspace c = (of_char c \<in> {9, 10, 11, 12, 13, 28, 29, 30, 31, 32, 133, 160 :: nat})"

definition strip :: "string \<Rightarrow> string" where
  "strip s = rev (dropWhile py_isspace (rev (dropWhile py_isspace s)))"

text \<open>
  \<open>str.lower\<close> on the code points below 256: A..Z and the Latin-1 capitals
  192..222 (without the multiplication sign 215) move up by 32.
\<close>

definition lower_char :: "char \<Rightarrow> char" where
  "lower_char c =
     (let n = of_char c :: nat
      in if (65 \<le> n \<and> n \<le> 90) \<or> (192 \<le> n \<and> n \<le> 222 \<and> n \<noteq> 215)
         then char_of (n + 32) else c)"

definition lower :: "string \<Rightarrow> string" where
  "lower s = map lower_char s"

text \<open>\<open>q in t\<close> on strings: \<open>q\<close> occurs in \<open>t\<close> as a contiguous run.\<close>

fun starts_with :: "string \<Rightarrow> string \<Rightarrow> bool" where
  "starts_with [] t = True"
| "starts_with (c # q) [] = False"
| "starts_with (c # q) (d # t) = (c = d \<and> starts_with q t)"

fun py_in :: "string \<Rightarrow> string \<Rightarrow> bool" where
  "py_in q [] = (q = [])"
| "py_in q (d # t) = (starts_with q (d # t) \<or> py_in q t)"

subsection \<open>Values that reach the program from json.loads\<close>

text \<open>
  A number keeps its literal; the program never computes with one. A dict is an
  association list in insertion order with distinct keys, looked up with \<open>map_of\<close>.
\<close>

datatype json =
    JNull
  | JBool bool
  | JNum string
  | JStr string
  | JArr "json list"
  | JObj "(string \<times> json) list"

datatype py_error =
    KeyError string
  | AttributeError
  | TypeError
  | EOFError

subsection \<open>Book and ReferenceBook\<close>

datatype book_class = Book | ReferenceBook

record book =
  title :: string
  author :: string
  isbn :: string
  status :: string
  cls :: book_class

text \<open>\<open>v.strip()\<close> on a value that need not be a string.\<close>

fun py_strip :: "json \<Rightarrow> py_error + string" where
  "py_strip (JStr s) = Inr (strip s)"
| "py_strip v = Inl AttributeError"

text \<open>
  \<open>Book.__init__\<close>, inherited unchanged by \<open>ReferenceBook\<close>; the first argument
  is the class being instantiated. The four attributes are computed in the order
  title, author, isbn, status, and the first value without \<open>strip\<close> raises.
\<close>

definition Book_init :: "book_class \<Rightarrow> json \<Rightarrow> json \<Rightarrow> json \<Rightarrow> json \<Rightarrow> py_error + book" where
  "Book_init c t a i s =
     (case py_strip t of Inl e \<Rightarrow> Inl e | Inr t' \<Rightarrow>
     (case py_strip a of Inl e \<Rightarrow> Inl e | Inr a' \<Rightarrow>
     (case py_strip i of Inl e \<Rightarrow> Inl e | Inr i' \<Rightarrow>
     (case py_strip s of Inl e \<Rightarrow> Inl e | Inr s' \<Rightarrow>
        Inr \<lparr>title = t', author = a', isbn = i', status = lower s', cls = c\<rparr>))))"

text \<open>\<open>Book.to_dict\<close>; \<open>self.__class__.__name__\<close> is the class name.\<close>

fun class_name :: "book_class \<Rightarrow> string" where
  "class_name Book = ''Book''"
| "class_name ReferenceBook = ''ReferenceBook''"

definition to_dict :: "book \<Rightarrow> json" where
  "to_dict b =
     JObj [(''title'', JStr (title b)),
           (''author'', JStr (author b)),
           (''isbn'', JStr (isbn b)),
           (''status'', JStr (status b)),
           (''type'', JStr (class_name (cls b)))]"

text \<open>\<open>data[k]\<close> and \<open>data.get(k, default)\<close> on a dict.\<close>

definition dict_item :: "(string \<times> json) list \<Rightarrow> string \<Rightarrow> py_error + json" where
  "dict_item d k = (case map_of d k of None \<Rightarrow> Inl (KeyError k) | Some v \<Rightarrow> Inr v)"

definition dict_get :: "(string \<times> json) list \<Rightarrow> string \<Rightarrow> json \<Rightarrow> json" where
  "dict_get d k dflt = (case map_of d k of None \<Rightarrow> dflt | Some v \<Rightarrow> v)"

text \<open>
  \<open>Book.from_dict\<close>. A value without \<open>get\<close> raises AttributeError. The arguments
  of the constructor are evaluated left to right, so the first absent key among
  title, author, isbn raises KeyError before the constructor runs.
\<close>

fun from_dict :: "json \<Rightarrow> py_error + book" where
  "from_dict (JObj d) =
     (let book_type = dict_get d ''type'' (JStr ''Book'');
          c = (if book_type = JStr ''ReferenceBook'' then ReferenceBook else Book)
      in (case dict_item d ''title'' of Inl e \<Rightarrow> Inl e | Inr t \<Rightarrow>
         (case dict_item d ''author'' of Inl e \<Rightarrow> Inl e | Inr a \<Rightarrow>
         (case dict_item d ''isbn'' of Inl e \<Rightarrow> Inl e | Inr i \<Rightarrow>
           Book_init c t a i (dict_get d ''status'' (JStr ''available''))))))"
| "from_dict v = Inl AttributeError"

definition is_available :: "book \<Rightarrow> bool" where
  "is_available b = (status b = ''available'')"

text \<open>
  \<open>issue\<close> and \<open>return_book\<close> give the returned flag and the object after the
  call. \<open>ReferenceBook\<close> overrides \<open>issue\<close> and inherits \<open>return_book\<close>.
\<close>

definition issue :: "book \<Rightarrow> bool \<times> book" where
  "issue b =
     (case cls b of
        ReferenceBook \<Rightarrow> (False, b)
      | Book \<Rightarrow> if is_available b then (True, b\<lparr>status := ''issued''\<rparr>) else (False, b))"

definition return_book :: "book \<Rightarrow> bool \<times> book" where
  "return_book b =
     (if \<not> is_available b then (True, b\<lparr>status := ''available''\<rparr>) else (False, b))"

subsection \<open>LibraryInventory: the list of books\<close>

text \<open>
  The inventory's \<open>books\<close> attribute is a \<open>book list\<close>. \<open>search_by_isbn\<close> returns
  the first object whose isbn equals the stripped query; \<open>isbn_index\<close> is its position,
  which the callers that mutate the object write back to.
\<close>

fun isbn_index :: "book list \<Rightarrow> string \<Rightarrow> nat option" where
  "isbn_index [] q = None"
| "isbn_index (b # bs) q = (if isbn b = q then Some 0 else map_option Suc (isbn_index bs q))"

definition search_by_isbn :: "book list \<Rightarrow> string \<Rightarrow> book option" where
  "search_by_isbn books isbn_query =
     map_option (\<lambda>i. books ! i) (isbn_index books (strip isbn_query))"

definition add_book :: "book list \<Rightarrow> book \<Rightarrow> bool \<times> book list" where
  "add_book books b =
     (if search_by_isbn books (isbn b) \<noteq> None then (False, books) else (True, books @ [b]))"

definition search_by_title :: "book list \<Rightarrow> string \<Rightarrow> book list" where
  "search_by_title books title_query =
     (let q = lower (strip title_query)
      in filter (\<lambda>b. py_in q (lower (title b))) books)"

subsection \<open>The command-line helpers\<close>

text \<open>
  Standard input is the list of the lines still to be read; \<open>input\<close> on the empty
  list raises EOFError. Each helper returns None in the source and reports through
  \<open>print\<close>; the model returns the line that reports the outcome:
  \<^item> \<open>BookAdded\<close>: Book added successfully.
  \<^item> \<open>DuplicateIsbn\<close>: A book with that ISBN already exists. Add aborted.
  \<^item> \<open>NoBookFound\<close>: No book found with that ISBN.
  \<^item> \<open>ReferenceNotIssued\<close>: This is a reference book and cannot be issued.
  \<^item> \<open>BookIssued\<close>: Book issued successfully.
  \<^item> \<open>NotAvailable\<close>: Book is not available for issue (may already be issued).
  \<^item> \<open>BookReturned\<close>: Book returned successfully.
  \<^item> \<open>AlreadyAvailable\<close>: Book was already available in the library (not issued).
  Headers, prompts and the retry line of \<open>input_nonempty\<close> are not recorded.
\<close>

datatype outcome =
    BookAdded
  | DuplicateIsbn
  | NoBookFound
  | ReferenceNotIssued
  | BookIssued
  | NotAvailable
  | BookReturned
  | AlreadyAvailable

fun input_nonempty :: "string list \<Rightarrow> (py_error + string) \<times> string list" where
  "input_nonempty [] = (Inl EOFError, [])"
| "input_nonempty (l # ls) =
     (let val = strip l in if val \<noteq> [] then (Inr val, ls) else input_nonempty ls)"

definition add_book_cli :: "book list \<Rightarrow> string list \<Rightarrow> (py_error + outcome) \<times> book list \<times> string list" where
  "add_book_cli books stdin =
     (case input_nonempty stdin of (Inl e, rest) \<Rightarrow> (Inl e, books, rest) | (Inr t, rest1) \<Rightarrow>
     (case input_nonempty rest1 of (Inl e, rest) \<Rightarrow> (Inl e, books, rest) | (Inr a, rest2) \<Rightarrow>
     (case input_nonempty rest2 of (Inl e, rest) \<Rightarrow> (Inl e, books, rest) | (Inr i, rest3) \<Rightarrow>
     (case rest3 of [] \<Rightarrow> (Inl EOFError, books, []) | l # rest4 \<Rightarrow>
        (let is_ref = (lower (strip l) = ''y'')
         in case Book_init (if is_ref then ReferenceBook else Book)
                   (JStr t) (JStr a) (JStr i) (JStr ''available'') of
              Inl e \<Rightarrow> (Inl e, books, rest4)
            | Inr b \<Rightarrow>
                (case add_book books b of
                   (True, books') \<Rightarrow> (Inr BookAdded, books', rest4)
                 | (False, books') \<Rightarrow> (Inr DuplicateIsbn, books', rest4)))))))"

definition issue_book_cli :: "book list \<Rightarrow> string list \<Rightarrow> (py_error + outcome) \<times> book list \<times> string list" where
  "issue_book_cli books stdin =
     (case input_nonempty stdin of (Inl e, rest) \<Rightarrow> (Inl e, books, rest) | (Inr q, rest) \<Rightarrow>
     (case isbn_index books (strip q) of
        None \<Rightarrow> (Inr NoBookFound, books, rest)
      | Some k \<Rightarrow>
          if cls (books ! k) = ReferenceBook then (Inr ReferenceNotIssued, books, rest)
          else (case issue (books ! k) of
                  (True, b') \<Rightarrow> (Inr BookIssued, books[k := b'], rest)
                | (False, b') \<Rightarrow> (Inr NotAvailable, books[k := b'], rest))))"

definition return_book_cli :: "book list \<Rightarrow> string list \<Rightarrow> (py_error + outcome) \<times> book list \<times> string list" where
  "return_book_cli books stdin =
     (case input_nonempty stdin of (Inl e, rest) \<Rightarrow> (Inl e, books, rest) | (Inr q, rest) \<Rightarrow>
     (case isbn_index books (strip q) of
        None \<Rightarrow> (Inr NoBookFound, books, rest)
      | Some k \<Rightarrow>
          (case return_book (books ! k) of
             (True, b') \<Rightarrow> (Inr BookReturned, books[k := b'], rest)
           | (False, b') \<Rightarrow> (Inr AlreadyAvailable, books[k := b'], rest))))"

subsection \<open>json.dump with indent=2\<close>

text \<open>
  The text \<open>json.dump(data, f, indent=2)\<close> writes, with the default
  \<open>ensure_ascii\<close>: inside a string the quote, the backslash and the control
  characters with a short form are escaped by a backslash, every other code point
  outside the range from the space to the tilde as \<open>\u00XX\<close> in lower-case
  hexadecimal. Items are separated by a comma and a line break, a key and its value by
  a colon and a space, and each nesting level indents by two spaces.
\<close>

definition hex_digit :: "nat \<Rightarrow> char" where
  "hex_digit n = (if n < 10 then char_of (48 + n) else char_of (87 + n))"

definition escape_char :: "char \<Rightarrow> string" where
  "escape_char c =
     (let n = of_char c :: nat
      in if n = 34 then [CHR 0x5C, CHR 0x22]
         else if n = 92 then [CHR 0x5C, CHR 0x5C]
         else if n = 10 then [CHR 0x5C, CHR ''n'']
         else if n = 13 then [CHR 0x5C, CHR ''r'']
         else if n = 9 then [CHR 0x5C, CHR ''t'']
         else if n = 12 then [CHR 0x5C, CHR ''f'']
         else if n = 8 then [CHR 0x5C, CHR ''b'']
         else if n < 32 \<or> 126 < n
           then [CHR 0x5C, CHR ''u'', CHR ''0'', CHR ''0'', hex_digit (n div 16), hex_digit (n mod 16)]
         else [c])"

definition dump_string :: "string \<Rightarrow> string" where
  "dump_string s = CHR 0x22 # concat (map escape_char s) @ [CHR 0x22]"

definition newline_indent :: "nat \<Rightarrow> string" where
  "newline_indent level = CHR 0x0A # replicate (2 * level) CHR '' ''"

fun join :: "string \<Rightarrow> string list \<Rightarrow> string" where
  "join sep [] = []"
| "join sep [x] = x"
| "join sep (x # y # ys) = x @ sep @ join sep (y # ys)"

fun dumps :: "nat \<Rightarrow> json \<Rightarrow> string"
  and dump_items :: "nat \<Rightarrow> json list \<Rightarrow> string list"
  and dump_members :: "nat \<Rightarrow> (string \<times> json) list \<Rightarrow> string list" where
  "dumps level JNull = ''null''"
| "dumps level (JBool b) = (if b then ''true'' else ''false'')"
| "dumps level (JNum lit) = lit"
| "dumps level (JStr s) = dump_string s"
| "dumps level (JArr xs) =
     (if xs = [] then ''[]''
      else ''['' @ newline_indent (Suc level)
           @ join ('','' @ newline_indent (Suc level)) (dump_items (Suc level) xs)
           @ newline_indent level @ '']'')"
| "dumps level (JObj kvs) =
     (if kvs = [] then ''{}''
      else ''{'' @ newline_indent (Suc level)
           @ join ('','' @ newline_indent (Suc level)) (dump_members (Suc level) kvs)
           @ newline_indent level @ ''}'')"
| "dump_items level [] = []"
| "dump_items level (x # xs) = dumps level x # dump_items level xs"
| "dump_members level [] = []"
| "dump_members level ((k, v) # kvs) =
     (dump_string k @ '': '' @ dumps level v) # dump_members level kvs"

subsection \<open>A decoder for JSON texts\<close>

text \<open>
  \<open>json.loads\<close> is the standard library's; \<open>load_catalog\<close> below takes the decoder
  as a parameter that returns None where \<open>json.loads\<close> raises JSONDecodeError.
  \<open>json_loads\<close> is a decoder for the grammar of the \<open>json\<close> module, used where a
  concrete text is decoded: white space is space, TAB, LF and CR; a string ends at the
  next unescaped quote and may not hold a control character; an escape \<open>\uXXXX\<close> is
  read when it names a code point below 256; the constants NaN, Infinity and -Infinity
  are numbers; of a repeated key the last value is kept; only white space may follow the
  value. The recursion is bounded by fuel, and running out of it is a failure to decode.
\<close>

definition json_ws :: "char \<Rightarrow> bool" where
  "json_ws c = (of_char c \<in> {32, 9, 10, 13 :: nat})"

definition skip_ws :: "string \<Rightarrow> string" where
  "skip_ws s = dropWhile json_ws s"

definition is_digit :: "char \<Rightarrow> bool" where
  "is_digit c = (48 \<le> (of_char c :: nat) \<and> (of_char c :: nat) \<le> 57)"

definition hex_val :: "char \<Rightarrow> nat option" where
  "hex_val c =
     (let n = of_char c :: nat
      in if 48 \<le> n \<and> n \<le> 57 then Some (n - 48)
         else if 97 \<le> n \<and> n \<le> 102 then Some (n - 87)
         else if 65 \<le> n \<and> n \<le> 70 then Some (n - 55)
         else None)"

definition unescape :: "char \<Rightarrow> char option" where
  "unescape e =
     (let n = of_char e :: nat
      in if n = 34 \<or> n = 92 \<or> n = 47 then Some e
         else if e = CHR ''b'' then Some (CHR 0x08)
         else if e = CHR ''f'' then Some (CHR 0x0C)
         else if e = CHR ''n'' then Some (CHR 0x0A)
         else if e = CHR ''r'' then Some (CHR 0x0D)
         else if e = CHR ''t'' then Some (CHR 0x09)
         else None)"

text \<open>The characters after the opening quote; \<open>acc\<close> holds the string so far, reversed.\<close>

fun scan_string :: "string \<Rightarrow> string \<Rightarrow> (string \<times> string) option" where
  "scan_string acc [] = None"
| "scan_string acc (c # cs) =
     (if c = CHR 0x22 then Some (rev acc, cs)
      else if c = CHR 0x5C then
        (case cs of
           [] \<Rightarrow> None
         | e # r \<Rightarrow>
             if e = CHR ''u'' then
               (case r of
                  h1 # h2 # h3 # h4 # r' \<Rightarrow>
                    (case (hex_val h1, hex_val h2, hex_val h3, hex_val h4) of
                       (Some a, Some b, Some x, Some y) \<Rightarrow>
                         if a = 0 \<and> b = 0 then scan_string (char_of (16 * x + y) # acc) r'
                         else None
                     | _ \<Rightarrow> None)
                | _ \<Rightarrow> None)
             else (case unescape e of
                     None \<Rightarrow> None
                   | Some ch \<Rightarrow> scan_string (ch # acc) r))
      else if (of_char c :: nat) < 32 then None
      else scan_string (c # acc) cs)"

text \<open>
  A number: an optional minus, then 0 or a digit string that does not start with 0,
  then optionally a point with digits, then optionally an exponent.
\<close>

definition scan_digits :: "string \<Rightarrow> string \<times> string" where
  "scan_digits s = (takeWhile is_digit s, dropWhile is_digit s)"

definition scan_int :: "string \<Rightarrow> (string \<times> string) option" where
  "scan_int s =
     (let (sign, r) = (case s of c # cs \<Rightarrow> if c = CHR ''-'' then (''-'', cs) else ([], s) | [] \<Rightarrow> ([], s))
      in case r of
           [] \<Rightarrow> None
         | d # ds \<Rightarrow>
             if d = CHR ''0'' then Some (sign @ ''0'', ds)
             else if is_digit d then Some (sign @ takeWhile is_digit r, dropWhile is_digit r)
             else None)"

definition scan_frac :: "string \<Rightarrow> string \<times> string" where
  "scan_frac s =
     (case s of
        c # cs \<Rightarrow>
          if c = CHR ''.'' \<and> takeWhile is_digit cs \<noteq> []
          then (c # takeWhile is_digit cs, dropWhile is_digit cs) else ([], s)
      | [] \<Rightarrow> ([], s))"

definition scan_exp :: "string \<Rightarrow> string \<times> string" where
  "scan_exp s =
     (case s of
        c # cs \<Rightarrow>
          if c = CHR ''e'' \<or> c = CHR ''E'' then
            (let (sg, r) = (case cs of
                              g # gs \<Rightarrow> if g = CHR ''+'' \<or> g = CHR ''-'' then ([g], gs) else ([], cs)
                            | [] \<Rightarrow> ([], cs))
             in if takeWhile is_digit r \<noteq> []
                then (c # sg @ takeWhile is_digit r, dropWhile is_digit r) else ([], s))
          else ([], s)
      | [] \<Rightarrow> ([], s))"

definition scan_number :: "string \<Rightarrow> (string \<times> string) option" where
  "scan_number s =
     (case scan_int s of
        None \<Rightarrow> None
      | Some (i, r) \<Rightarrow>
          (let (f, r1) = scan_frac r; (e, r2) = scan_exp r1 in Some (i @ f @ e, r2)))"

definition literal :: "string \<Rightarrow> json \<Rightarrow> string \<Rightarrow> (json \<times> string) option" where
  "literal word v s = (if starts_with word s then Some (v, drop (length word) s) else None)"

text \<open>\<open>dict\<close> built from the pairs of an object: a repeated key keeps its place and
  takes the later value.\<close>

definition dict_set :: "(string \<times> json) list \<Rightarrow> string \<Rightarrow> json \<Rightarrow> (string \<times> json) list" where
  "dict_set d k v =
     (if k \<in> fst ` set d then map (\<lambda>(k', v'). if k' = k then (k', v) else (k', v')) d
      else d @ [(k, v)])"

fun parse_value :: "nat \<Rightarrow> string \<Rightarrow> (json \<times> string) option"
  and parse_array :: "nat \<Rightarrow> json list \<Rightarrow> string \<Rightarrow> (json \<times> string) option"
  and parse_object :: "nat \<Rightarrow> (string \<times> json) list \<Rightarrow> string \<Rightarrow> (json \<times> string) option" where
  "parse_value 0 s = None"
| "parse_value (Suc n) s =
     (case s of
        [] \<Rightarrow> None
      | c # cs \<Rightarrow>
          if c = CHR 0x22 then
            (case scan_string [] cs of None \<Rightarrow> None | Some (x, r) \<Rightarrow> Some (JStr x, r))
          else if c = CHR ''{'' then
            (case skip_ws cs of
               [] \<Rightarrow> None
             | d # r \<Rightarrow>
                 if d = CHR ''}'' then Some (JObj [], r)
                 else if d = CHR 0x22 then parse_object n [] (d # r)
                 else None)
          else if c = CHR ''['' then
            (case skip_ws cs of
               [] \<Rightarrow> None
             | d # r \<Rightarrow> if d = CHR '']'' then Some (JArr [], r) else parse_array n [] (d # r))
          else if starts_with ''null'' s then literal ''null'' JNull s
          else if starts_with ''true'' s then literal ''true'' (JBool True) s
          else if starts_with ''false'' s then literal ''false'' (JBool False) s
          else (case scan_number s of
                  Some (lit, r) \<Rightarrow> Some (JNum lit, r)
                | None \<Rightarrow>
                    if starts_with ''NaN'' s then literal ''NaN'' (JNum ''NaN'') s
                    else if starts_with ''Infinity'' s then literal ''Infinity'' (JNum ''Infinity'') s
                    else literal ''-Infinity'' (JNum ''-Infinity'') s))"
| "parse_array 0 acc s = None"
| "parse_array (Suc n) acc s =
     (case parse_value n s of
        None \<Rightarrow> None
      | Some (v, r) \<Rightarrow>
          (case skip_ws r of
             [] \<Rightarrow> None
           | c # r' \<Rightarrow>
               if c = CHR '']'' then Some (JArr (rev (v # acc)), r')
               else if c = CHR '','' then parse_array n (v # acc) (skip_ws r')
               else None))"
| "parse_object 0 acc s = None"
| "parse_object (Suc n) acc s =
     (case s of
        [] \<Rightarrow> None
      | q # s' \<Rightarrow>
          if q \<noteq> CHR 0x22 then None
          else (case scan_string [] s' of
                  None \<Rightarrow> None
                | Some (k, r) \<Rightarrow>
                    (case skip_ws r of
                       [] \<Rightarrow> None
                     | c # r' \<Rightarrow>
                         if c \<noteq> CHR '':'' then None
                         else (case parse_value n (skip_ws r') of
                                 None \<Rightarrow> None
                               | Some (v, r2) \<Rightarrow>
                                   (case skip_ws r2 of
                                      [] \<Rightarrow> None
                                    | c' # r3 \<Rightarrow>
                                        if c' = CHR ''}'' then Some (JObj (dict_set acc k v), r3)
                                        else if c' = CHR '','' then parse_object n (dict_set acc k v) (skip_ws r3)
                                        else None)))))"

definition json_loads :: "string \<Rightarrow> json option" where
  "json_loads s =
     (case parse_value (2 * length s + 2) (skip_ws s) of
        None \<Rightarrow> None
      | Some (v, r) \<Rightarrow> if skip_ws r = [] then Some v else None)"

subsection \<open>Saving and loading the catalog\<close>

text \<open>
  The disk holds the file at \<open>catalog_path\<close> and the file at the backup path
  \<open>catalog_path.with_suffix(".backup.json")\<close>. A file is absent, present but not
  readable as text (\<open>open\<close> or \<open>read\<close> raises), or a text. A write that fails is
  taken to fail when the file is opened, before any byte changes.
\<close>

datatype file_state = Absent | Unreadable | Text string

record disk =
  catalog :: file_state
  backup :: file_state

text \<open>
  What \<open>load_catalog\<close> does at the console: a \<open>print\<close> of one of its lines, or a
  call of \<open>input\<close>, which shows the prompt and reads a line.
  \<^item> \<open>CorruptedError\<close>: ERROR: Catalog file is corrupted or not valid JSON.
  \<^item> \<open>ResetOrBackupOffer\<close>: You can choose to (R)eset the catalog (this will
    overwrite the file), or (B)ackup and start fresh.
  \<^item> \<open>CatalogReset\<close>: Catalog reset. Starting with empty catalog.
  \<^item> \<open>FailedReset\<close>: Failed to reset catalog file.
  \<^item> \<open>BackedUp\<close>: Corrupted file backed up to (the backup path). Starting with empty
    catalog.
  \<^item> \<open>FailedBackup\<close>: Failed to backup corrupted catalog.
  \<^item> \<open>AbortedLoad\<close>: Aborted loading catalog. Program will continue with empty
    in-memory catalog (not saved).
  \<^item> \<open>UnexpectedError\<close>: Unexpected error loading catalog: (the exception).
\<close>

datatype message =
    CorruptedError
  | ResetOrBackupOffer
  | CatalogReset
  | FailedReset
  | BackedUp
  | FailedBackup
  | AbortedLoad
  | UnexpectedError

datatype event = Print message | Input

record load_result =
  returned :: "py_error + bool"
  books_after :: "book list"
  disk_after :: disk
  console :: "event list"


text \<open>\<open>for item in data\<close>: the items of a list, the keys of a dict, the characters
  of a string; any other value is not iterable.\<close>

fun py_iter :: "json \<Rightarrow> py_error + json list" where
  "py_iter (JArr xs) = Inr xs"
| "py_iter (JObj kvs) = Inr (map (\<lambda>kv. JStr (fst kv)) kvs)"
| "py_iter (JStr s) = Inr (map (\<lambda>c. JStr [c]) s)"
| "py_iter v = Inl TypeError"

text \<open>\<open>[Book.from_dict(item) for item in data]\<close>: the first item that raises ends
  the comprehension.\<close>

fun decode_all :: "json list \<Rightarrow> py_error + book list" where
  "decode_all [] = Inr []"
| "decode_all (x # xs) =
     (case from_dict x of
        Inl e \<Rightarrow> Inl e
      | Inr b \<Rightarrow> (case decode_all xs of Inl e \<Rightarrow> Inl e | Inr bs \<Rightarrow> Inr (b # bs)))"

text \<open>
  The handler of JSONDecodeError in \<open>load_catalog\<close>. \<open>answer\<close> is the line
  \<open>input\<close> reads (None at the end of the input, where \<open>input\<close> raises EOFError out of
  the handler); \<open>ok_ops\<close> is the number of file operations (rename, open for writing)
  that succeed before one raises; \<open>raw\<close> is the text read from the catalog file.
\<close>

definition on_json_decode_error :: "string option \<Rightarrow> nat \<Rightarrow> string \<Rightarrow> disk \<Rightarrow> book list \<Rightarrow> load_result" where
  "on_json_decode_error answer ok_ops raw d books =
     (let shown = [Print CorruptedError, Print ResetOrBackupOffer, Input]
      in case answer of
           None \<Rightarrow>
             \<lparr>returned = Inl EOFError, books_after = books, disk_after = d, console = shown\<rparr>
         | Some line \<Rightarrow>
             (let choice = lower (strip line)
              in if choice = ''r'' then
                   (if 1 \<le> ok_ops
                    then \<lparr>returned = Inr True, books_after = [],
                          disk_after = d\<lparr>catalog := Text ''[]''\<rparr>,
                          console = shown @ [Print CatalogReset]\<rparr>
                    else \<lparr>returned = Inr False, books_after = books, disk_after = d,
                          console = shown @ [Print FailedReset]\<rparr>)
                 else if choice = ''b'' then
                   (let d1 = d\<lparr>catalog := Absent, backup := catalog d\<rparr>;
                        d2 = d1\<lparr>backup := Text raw\<rparr>;
                        d3 = d2\<lparr>catalog := Text ''[]''\<rparr>
                    in if ok_ops = 0
                       then \<lparr>returned = Inr False, books_after = books, disk_after = d,
                             console = shown @ [Print FailedBackup]\<rparr>
                       else if ok_ops = 1
                       then \<lparr>returned = Inr False, books_after = books, disk_after = d1,
                             console = shown @ [Print FailedBackup]\<rparr>
                       else if ok_ops = 2
                       then \<lparr>returned = Inr False, books_after = books, disk_after = d2,
                             console = shown @ [Print FailedBackup]\<rparr>
                       else \<lparr>returned = Inr True, books_after = [], disk_after = d3,
                             console = shown @ [Print BackedUp]\<rparr>)
                 else \<lparr>returned = Inr True, books_after = [], disk_after = d,
                       console = shown @ [Print AbortedLoad]\<rparr>))"

text \<open>
  \<open>load_catalog\<close>. \<open>loads\<close> is the JSON decoder, None where \<open>json.loads\<close> raises
  JSONDecodeError; \<open>books\<close> is the list the inventory holds when the method is called.
\<close>

definition load_catalog :: "(string \<Rightarrow> json option) \<Rightarrow> string option \<Rightarrow> nat \<Rightarrow> disk \<Rightarrow> book list \<Rightarrow> load_result" where
  "load_catalog loads answer ok_ops d books =
     (case catalog d of
        Absent \<Rightarrow>
          \<lparr>returned = Inr True, books_after = [], disk_after = d, console = []\<rparr>
      | Unreadable \<Rightarrow>
          \<lparr>returned = Inr False, books_after = [], disk_after = d,
           console = [Print UnexpectedError]\<rparr>
      | Text raw \<Rightarrow>
          if strip raw = [] then
            \<lparr>returned = Inr True, books_after = [], disk_after = d, console = []\<rparr>
          else
            (case loads raw of
               None \<Rightarrow> on_json_decode_error answer ok_ops raw d books
             | Some data \<Rightarrow>
                 (case (case py_iter data of Inl e \<Rightarrow> Inl e | Inr items \<Rightarrow> decode_all items) of
                    Inl e \<Rightarrow>
                      \<lparr>returned = Inr False, books_after = [], disk_after = d,
                       console = [Print UnexpectedError]\<rparr>
                  | Inr bs \<Rightarrow>
                      \<lparr>returned = Inr True, books_after = bs, disk_after = d, console = []\<rparr>)))"

text \<open>\<open>LibraryInventory.__init__\<close>: the list starts empty and the catalog is loaded.\<close>

definition LibraryInventory_init :: "(string \<Rightarrow> json option) \<Rightarrow> string option \<Rightarrow> nat \<Rightarrow> disk \<Rightarrow> load_result" where
  "LibraryInventory_init loads answer ok_ops d = load_catalog loads answer ok_ops d []"

subsection \<open>Predicates of the specification\<close>

text \<open>A string without white space at either end.\<close>

definition trimmed :: "string \<Rightarrow> bool" where
  "trimmed s = (s \<noteq> [] \<longrightarrow> \<not> py_isspace (hd s) \<and> \<not> py_isspace (last s))"

text \<open>A valid Record: title, author and id trimmed and not empty, the status one of
  the two lower-case names.\<close>

definition valid_record :: "book \<Rightarrow> bool" where
  "valid_record r =
     (title r \<noteq> [] \<and> trimmed (title r) \<and>
      author r \<noteq> [] \<and> trimmed (author r) \<and>
      isbn r \<noteq> [] \<and> trimmed (isbn r) \<and>
      (status r = ''available'' \<or> status r = ''issued''))"

text \<open>A key of a dict that is absent, and a key that holds a string.\<close>

definition absent :: "(string \<times> json) list \<Rightarrow> string \<Rightarrow> bool" where
  "absent d k = (map_of d k = None)"

definition str_field :: "(string \<times> json) list \<Rightarrow> string \<Rightarrow> bool" where
  "str_field d k = (case map_of d k of Some (JStr s) \<Rightarrow> True | _ \<Rightarrow> False)"

text \<open>Every reference book of the list is available.\<close>

definition refs_available :: "book list \<Rightarrow> bool" where
  "refs_available books = (\<forall>b \<in> set books. cls b = ReferenceBook \<longrightarrow> status b = ''available'')"

text \<open>\<open>q\<close> is a substring of \<open>t\<close> when case is ignored.\<close>

definition ci_substring :: "string \<Rightarrow> string \<Rightarrow> bool" where
  "ci_substring q t = (\<exists>pre post. lower t = pre @ lower q @ post)"

subsection \<open>Records and texts of the scenarios\<close>

text \<open>The Book Go by A with id 111, the ReferenceBook Atlas with id 9, each in a given
  status, and a second Book with the id 111.\<close>

definition go_book :: "string \<Rightarrow> book" where
  "go_book st = \<lparr>title = ''Go'', author = ''A'', isbn = ''111'', status = st, cls = Book\<rparr>"

definition atlas_book :: "string \<Rightarrow> book" where
  "atlas_book st =
     \<lparr>title = ''Atlas'', author = ''R'', isbn = ''9'', status = st, cls = ReferenceBook\<rparr>"

definition rust_book :: book where
  "rust_book =
     \<lparr>title = ''Rust in Action'', author = ''B'', isbn = ''111'', status = ''available'', cls = Book\<rparr>"




text \<open>A catalog with an issued ReferenceBook, one whose only record has blank fields,
  and a text that is not JSON.\<close>

definition atlas_issued_text :: string where
  \<open>atlas_issued_text =
     ''[{"title":"Atlas","author":"R","isbn":"9","status":"issued","type":"ReferenceBook"}]''\<close>

definition blank_text :: string where
  \<open>blank_text = ''[{"title": "", "author": "  ", "isbn": ""}]''\<close>

definition blank_book :: book where
  "blank_book = \<lparr>title = '''', author = '''', isbn = '''', status = ''available'', cls = Book\<rparr>"

definition corrupt_text :: string where
  "corrupt_text = ''{not valid json''"

text \<open>A catalog whose two records, Go and Rust in Action, both have the id 111.\<close>

definition twice_text :: string where
  \<open>twice_text =
     ''[{"title":"Go","author":"A","isbn":"111"},{"title":"Rust in Action","author":"B","isbn":"111"}]''\<close>

section \<open>Properties\<close>

subsection \<open>strip and lower\<close>

lemma length_strip_le: "length (strip s) \<le> length (dropWhile py_isspace s)"
  by (metis strip_def length_rev length_dropWhile_le)

lemma dropWhile_shorter: "xs \<noteq> [] \<Longrightarrow> P (hd xs) \<Longrightarrow> length (dropWhile P xs) < length xs"
  by (cases xs) (simp_all add: le_imp_less_Suc length_dropWhile_le)

lemma dropWhile_keeps: "xs = [] \<or> \<not> P (hd xs) \<Longrightarrow> dropWhile P xs = xs"
  by (cases xs) auto

lemma strip_eq_iff_trimmed: "strip s = s \<longleftrightarrow> trimmed s"
proof (cases "s = []")
  case True
  then show ?thesis by (simp add: strip_def trimmed_def)
next
  case False
  show ?thesis
  proof
    assume eq: "strip s = s"
    have h: "\<not> py_isspace (hd s)"
    proof
      assume "py_isspace (hd s)"
      with False have "length (dropWhile py_isspace s) < length s"
        by (rule dropWhile_shorter)
      with length_strip_le [of s] eq show False by simp
    qed
    then have d: "dropWhile py_isspace s = s" by (simp add: dropWhile_keeps)
    have "\<not> py_isspace (last s)"
    proof
      assume "py_isspace (last s)"
      with False have "py_isspace (hd (rev s))" by (simp add: hd_rev)
      with False have "length (dropWhile py_isspace (rev s)) < length (rev s)"
        by (intro dropWhile_shorter) simp_all
      then have "length (strip s) < length s" by (simp add: strip_def d)
      with eq show False by simp
    qed
    with h show "trimmed s" by (simp add: trimmed_def)
  next
    assume "trimmed s"
    with False have h: "\<not> py_isspace (hd s)" and l: "\<not> py_isspace (hd (rev s))"
      by (simp_all add: trimmed_def hd_rev)
    then show "strip s = s" by (simp add: strip_def dropWhile_keeps)
  qed
qed

lemma trimmed_strip: "trimmed (strip s)"
proof -
  let ?d = "dropWhile py_isspace"
  let ?r = "?d (rev (?d s))"
  show ?thesis
  proof (cases "?r = []")
    case True
    then show ?thesis by (simp add: strip_def trimmed_def)
  next
    case False
    then have hdr: "\<not> py_isspace (hd ?r)" by (rule hd_dropWhile)
    have ne: "?d s \<noteq> []"
    proof
      assume "?d s = []"
      then have "?r = []" by (simp only: rev.simps dropWhile.simps)
      with False show False ..
    qed
    then have hds: "\<not> py_isspace (hd (?d s))" by (rule hd_dropWhile)
    have "rev (?d s) = takeWhile py_isspace (rev (?d s)) @ ?r" by simp
    then have "?d s = rev ?r @ rev (takeWhile py_isspace (rev (?d s)))"
      by (metis rev_append rev_rev_ident)
    then have "hd (?d s) = hd (rev ?r)" using False by (metis hd_append2 rev_is_Nil_conv)
    with hds have "\<not> py_isspace (hd (rev ?r))" by simp
    moreover have "last (rev ?r) = hd ?r" using False by (simp add: last_rev)
    ultimately show ?thesis using hdr by (simp add: strip_def trimmed_def)
  qed
qed

lemma strip_idem: "strip (strip s) = strip s"
  using trimmed_strip strip_eq_iff_trimmed by blast

lemma lower_char_idem: "lower_char (lower_char c) = lower_char c"
  by (simp add: lower_char_def Let_def)

lemma lower_idem: "lower (lower s) = lower s"
  by (simp add: lower_def lower_char_idem)

lemmas str_eval = strip_def py_isspace_def lower_def lower_char_def char_of_eq_iff

subsection \<open>The codec\<close>

lemma py_strip_cases:
  "py_strip v = (case v of JStr s \<Rightarrow> Inr (strip s) | _ \<Rightarrow> Inl AttributeError)"
  by (cases v) simp_all

lemma Book_init_str:
  "Book_init c (JStr t) (JStr a) (JStr i) (JStr s)
     = Inr \<lparr>title = strip t, author = strip a, isbn = strip i, status = lower (strip s), cls = c\<rparr>"
  by (simp add: Book_init_def)

lemma Book_init_Inl:
  "Book_init c t a i s = Inl e \<longleftrightarrow>
     e = AttributeError \<and>
     \<not> ((\<exists>x. t = JStr x) \<and> (\<exists>x. a = JStr x) \<and> (\<exists>x. i = JStr x) \<and> (\<exists>x. s = JStr x))"
  unfolding Book_init_def py_strip_cases
  by (auto split: json.splits)

lemma Book_init_Inr:
  "Book_init c t a i s = Inr b \<longleftrightarrow>
     (\<exists>t' a' i' s'. t = JStr t' \<and> a = JStr a' \<and> i = JStr i' \<and> s = JStr s' \<and>
        b = \<lparr>title = strip t', author = strip a', isbn = strip i', status = lower (strip s'), cls = c\<rparr>)"
  unfolding Book_init_def py_strip_cases
  by (auto split: json.splits)

lemma str_field_iff: "str_field d k \<longleftrightarrow> (\<exists>s. map_of d k = Some (JStr s))"
  by (auto simp: str_field_def split: option.splits json.splits)

lemma from_dict_to_dict:
  assumes "trimmed (title r)" "trimmed (author r)" "trimmed (isbn r)"
    and "lower (strip (status r)) = status r"
  shows "from_dict (to_dict r) = Inr r"
proof -
  have c: "(if JStr (class_name (cls r)) = JStr ''ReferenceBook'' then ReferenceBook else Book) = cls r"
    by (cases "cls r") simp_all
  show ?thesis
    using assms c
    by (simp add: to_dict_def dict_get_def dict_item_def Book_init_def strip_eq_iff_trimmed [symmetric])
qed

text \<open>
  Claim C1. For every valid Record \<open>r\<close>, of either class, with trimmed non-empty title,
  author and id and status available or issued, decoding the encoding of \<open>r\<close> gives
  back \<open>r\<close>, field by field.
\<close>

theorem roundtrip: "valid_record r \<Longrightarrow> from_dict (to_dict r) = Inr r"
  unfolding valid_record_def
  by (rule from_dict_to_dict) (auto simp: str_eval)

text \<open>The round trip at an issued Book and at an available ReferenceBook.\<close>

theorem roundtrip_witness:
  "valid_record \<lparr>title = ''Go'', author = ''A'', isbn = ''111'', status = ''issued'', cls = Book\<rparr>
   \<and> from_dict (to_dict \<lparr>title = ''Go'', author = ''A'', isbn = ''111'', status = ''issued'', cls = Book\<rparr>)
       = Inr \<lparr>title = ''Go'', author = ''A'', isbn = ''111'', status = ''issued'', cls = Book\<rparr>
   \<and> valid_record \<lparr>title = ''Atlas of the World'', author = ''R. Roe'', isbn = ''9'',
                    status = ''available'', cls = ReferenceBook\<rparr>
   \<and> from_dict (to_dict \<lparr>title = ''Atlas of the World'', author = ''R. Roe'', isbn = ''9'',
                          status = ''available'', cls = ReferenceBook\<rparr>)
       = Inr \<lparr>title = ''Atlas of the World'', author = ''R. Roe'', isbn = ''9'',
              status = ''available'', cls = ReferenceBook\<rparr>"
proof -
  let ?r = "\<lparr>title = ''Go'', author = ''A'', isbn = ''111'', status = ''issued'', cls = Book\<rparr>"
  let ?s = "\<lparr>title = ''Atlas of the World'', author = ''R. Roe'', isbn = ''9'',
             status = ''available'', cls = ReferenceBook\<rparr>"
  have v: "valid_record ?r" "valid_record ?s"
    by (simp_all add: valid_record_def trimmed_def py_isspace_def)
  from v roundtrip [of ?r] roundtrip [of ?s] show ?thesis by simp
qed

text \<open>
  Claim C6, as the code has it. Decoding a dict fails exactly when one of the keys title,
  author, isbn is absent (KeyError) or when, all three being present, the value of title,
  author, isbn or of a present status is not a string (AttributeError). When it succeeds
  and status is absent the status is available, and the result is a ReferenceBook only
  for the type ReferenceBook: an absent or any other type gives a Book.
\<close>

theorem from_dict_outcomes:
  "((\<exists>k. from_dict (JObj d) = Inl (KeyError k))
      \<longleftrightarrow> absent d ''title'' \<or> absent d ''author'' \<or> absent d ''isbn'') \<and>
   (from_dict (JObj d) = Inl AttributeError
      \<longleftrightarrow> \<not> (absent d ''title'' \<or> absent d ''author'' \<or> absent d ''isbn'') \<and>
          \<not> (str_field d ''title'' \<and> str_field d ''author'' \<and> str_field d ''isbn'' \<and>
             (absent d ''status'' \<or> str_field d ''status''))) \<and>
   ((\<exists>b. from_dict (JObj d) = Inr b)
      \<longleftrightarrow> str_field d ''title'' \<and> str_field d ''author'' \<and> str_field d ''isbn'' \<and>
          (absent d ''status'' \<or> str_field d ''status'')) \<and>
   (\<forall>b. from_dict (JObj d) = Inr b \<longrightarrow>
      (absent d ''status'' \<longrightarrow> status b = ''available'') \<and>
      cls b = (if map_of d ''type'' = Some (JStr ''ReferenceBook'') then ReferenceBook else Book))"
  unfolding from_dict.simps Let_def dict_item_def dict_get_def absent_def str_field_iff
  by (auto simp: Book_init_Inl Book_init_Inr str_eval split: option.splits sum.splits)

text \<open>
  The outcomes at a dict without status and with an unknown type, which decodes to an
  available Book, and at a dict without title, which does not decode.
\<close>

theorem from_dict_outcomes_witness:
  "from_dict (JObj [(''title'', JStr ''Go''), (''author'', JStr ''A''), (''isbn'', JStr ''111''),
                    (''type'', JStr ''Magazine'')])
     = Inr \<lparr>title = ''Go'', author = ''A'', isbn = ''111'', status = ''available'', cls = Book\<rparr>
   \<and> absent [(''author'', JStr ''A''), (''isbn'', JStr ''111'')] ''title''
   \<and> from_dict (JObj [(''author'', JStr ''A''), (''isbn'', JStr ''111'')]) = Inl (KeyError ''title'')"
proof -
  let ?d = "[(''title'', JStr ''Go''), (''author'', JStr ''A''), (''isbn'', JStr ''111''),
             (''type'', JStr ''Magazine'')]"
  let ?e = "[(''author'', JStr ''A''), (''isbn'', JStr ''111'')]"
  have "str_field ?d ''title''" "str_field ?d ''author''" "str_field ?d ''isbn''"
    "absent ?d ''status''" "map_of ?d ''type'' \<noteq> Some (JStr ''ReferenceBook'')"
    by (simp_all add: str_field_def absent_def)
  with from_dict_outcomes [of ?d] obtain b
    where b: "from_dict (JObj ?d) = Inr b" "status b = ''available''" "cls b = Book"
    by auto
  have a: "absent ?e ''title''" by (simp add: absent_def)
  with from_dict_outcomes [of ?e] obtain k where k: "from_dict (JObj ?e) = Inl (KeyError k)"
    by blast
  from b k a show ?thesis
    by (auto simp: dict_item_def dict_get_def Book_init_str str_eval)
qed

text \<open>
  Claim C6 as stated fails: in this dict title, author and isbn are all present, and
  decoding fails, because the title is a number and has no \<open>strip\<close>.
\<close>

theorem from_dict_present_fails_counterexample:
  "\<not> absent [(''title'', JNum ''5''), (''author'', JStr ''A''), (''isbn'', JStr ''1'')] ''title''
   \<and> \<not> absent [(''title'', JNum ''5''), (''author'', JStr ''A''), (''isbn'', JStr ''1'')] ''author''
   \<and> \<not> absent [(''title'', JNum ''5''), (''author'', JStr ''A''), (''isbn'', JStr ''1'')] ''isbn''
   \<and> from_dict (JObj [(''title'', JNum ''5''), (''author'', JStr ''A''), (''isbn'', JStr ''1'')])
       = Inl AttributeError"
  by (simp add: absent_def dict_item_def dict_get_def Book_init_def)

text \<open>
  Claim C10. Whatever status string is passed at construction, directly or through
  \<open>from_dict\<close>, the Record is built and its status is the string stripped and then
  lower-cased.
\<close>

theorem status_normalized:
  "(\<exists>b. Book_init c (JStr t) (JStr a) (JStr i) (JStr s) = Inr b \<and> status b = lower (strip s)) \<and>
   (map_of d ''title'' = Some (JStr t) \<and> map_of d ''author'' = Some (JStr a) \<and>
    map_of d ''isbn'' = Some (JStr i) \<and> map_of d ''status'' = Some (JStr s)
      \<longrightarrow> (\<exists>b. from_dict (JObj d) = Inr b \<and> status b = lower (strip s)))"
  by (simp add: Book_init_str dict_item_def dict_get_def)

text \<open>Constructing with Issued and decoding with AVAILABLE between spaces.\<close>

theorem status_normalized_witness:
  "Book_init Book (JStr ''Go'') (JStr ''A'') (JStr ''111'') (JStr ''Issued'')
     = Inr \<lparr>title = ''Go'', author = ''A'', isbn = ''111'', status = ''issued'', cls = Book\<rparr>
   \<and> from_dict (JObj [(''title'', JStr ''Go''), (''author'', JStr ''A''), (''isbn'', JStr ''111''),
                      (''status'', JStr '' AVAILABLE '')])
     = Inr \<lparr>title = ''Go'', author = ''A'', isbn = ''111'', status = ''available'', cls = Book\<rparr>"
proof -
  let ?d = "[(''title'', JStr ''Go''), (''author'', JStr ''A''), (''isbn'', JStr ''111''),
             (''status'', JStr '' AVAILABLE '')]"
  have n: "lower (strip ''Issued'') = ''issued''" "lower (strip '' AVAILABLE '') = ''available''"
    "strip ''Go'' = ''Go''" "strip ''A'' = ''A''" "strip ''111'' = ''111''"
    by (simp_all add: str_eval)
  from status_normalized [of Book "''Go''" "''A''" "''111''" "''Issued''" ?d]
  obtain b where "Book_init Book (JStr ''Go'') (JStr ''A'') (JStr ''111'') (JStr ''Issued'') = Inr b"
    and "status b = lower (strip ''Issued'')" by blast
  moreover
  from status_normalized [of Book "''Go''" "''A''" "''111''" "'' AVAILABLE ''" ?d]
  obtain b' where "from_dict (JObj ?d) = Inr b'" and "status b' = lower (strip '' AVAILABLE '')"
    by auto
  ultimately show ?thesis
    using n by (auto simp add: Book_init_str dict_item_def dict_get_def)
qed

subsection \<open>Issuing and returning\<close>

text \<open>
  Claim C5. \<open>issue\<close> on a ReferenceBook returns False and leaves the object as it
  is, whatever its status. On a Book with status available it sets the status to issued
  and returns True; on a Book with status issued it returns False and changes nothing.
\<close>

theorem issue_spec:
  "(cls b = ReferenceBook \<longrightarrow> issue b = (False, b)) \<and>
   (cls b = Book \<and> status b = ''available'' \<longrightarrow> issue b = (True, b\<lparr>status := ''issued''\<rparr>)) \<and>
   (cls b = Book \<and> status b = ''issued'' \<longrightarrow> issue b = (False, b))"
  by (simp add: issue_def is_available_def)

text \<open>A ReferenceBook in either status, and a Book in either status.\<close>

theorem issue_spec_witness:
  "issue \<lparr>title = ''Atlas'', author = ''R'', isbn = ''9'', status = ''available'', cls = ReferenceBook\<rparr>
     = (False, \<lparr>title = ''Atlas'', author = ''R'', isbn = ''9'', status = ''available'', cls = ReferenceBook\<rparr>)
   \<and> issue \<lparr>title = ''Atlas'', author = ''R'', isbn = ''9'', status = ''issued'', cls = ReferenceBook\<rparr>
     = (False, \<lparr>title = ''Atlas'', author = ''R'', isbn = ''9'', status = ''issued'', cls = ReferenceBook\<rparr>)
   \<and> issue \<lparr>title = ''Go'', author = ''A'', isbn = ''111'', status = ''available'', cls = Book\<rparr>
     = (True, \<lparr>title = ''Go'', author = ''A'', isbn = ''111'', status = ''issued'', cls = Book\<rparr>)
   \<and> issue \<lparr>title = ''Go'', author = ''A'', isbn = ''111'', status = ''issued'', cls = Book\<rparr>
     = (False, \<lparr>title = ''Go'', author = ''A'', isbn = ''111'', status = ''issued'', cls = Book\<rparr>)"
  using issue_spec [of "\<lparr>title = ''Atlas'', author = ''R'', isbn = ''9'', status = ''available'', cls = ReferenceBook\<rparr>"]
    issue_spec [of "\<lparr>title = ''Atlas'', author = ''R'', isbn = ''9'', status = ''issued'', cls = ReferenceBook\<rparr>"]
    issue_spec [of "\<lparr>title = ''Go'', author = ''A'', isbn = ''111'', status = ''available'', cls = Book\<rparr>"]
    issue_spec [of "\<lparr>title = ''Go'', author = ''A'', isbn = ''111'', status = ''issued'', cls = Book\<rparr>"]
  by simp

subsection \<open>The inventory: adding and searching\<close>

lemma isbn_index_None: "isbn_index bs q = None \<longleftrightarrow> q \<notin> isbn ` set bs"
  by (induction bs) auto

lemma search_by_isbn_find: "search_by_isbn books q = find (\<lambda>b. isbn b = strip q) books"
proof -
  have "map_option (\<lambda>i. bs ! i) (isbn_index bs s) = find (\<lambda>b. isbn b = s) bs" for bs s
    by (induction bs) (auto simp: option.map_comp comp_def)
  then show ?thesis by (simp add: search_by_isbn_def)
qed

lemma search_by_isbn_None: "search_by_isbn books q = None \<longleftrightarrow> strip q \<notin> isbn ` set books"
  by (simp add: search_by_isbn_def isbn_index_None)

lemma filter_distinct_key:
  "distinct (map f xs) \<Longrightarrow> x \<in> set xs \<Longrightarrow> filter (\<lambda>y. f y = f x) xs = [x]"
proof (induction xs)
  case Nil
  then show ?case by simp
next
  case (Cons a xs)
  show ?case
  proof (cases "a = x")
    case True
    with Cons.prems have "\<forall>y \<in> set xs. f y \<noteq> f x"
      by (metis distinct.simps(2) imageI list.simps(9) list.set_map)
    then have "filter (\<lambda>y. f y = f x) xs = []" by (simp add: filter_empty_conv)
    with True show ?thesis by simp
  next
    case False
    with Cons.prems have "x \<in> set xs" "f a \<noteq> f x" by auto
    with Cons show ?thesis by simp
  qed
qed

lemma find_distinct_key:
  "distinct (map f xs) \<Longrightarrow> x \<in> set xs \<Longrightarrow> find (\<lambda>y. f y = f x) xs = Some x"
  by (induction xs) auto

lemma add_book_cases:
  "add_book books b = (False, books) \<or> add_book books b = (True, books @ [b])"
  by (simp add: add_book_def)

text \<open>Adding keeps the ids of the list distinct.\<close>

lemma add_book_distinct:
  "trimmed (isbn b) \<Longrightarrow> distinct (map isbn books) \<Longrightarrow> distinct (map isbn (snd (add_book books b)))"
  by (auto simp: add_book_def search_by_isbn_None strip_eq_iff_trimmed [symmetric])

text \<open>
  Claim C3, as the code has it. Let \<open>b\<close> be a Record, its id trimmed as the constructor
  leaves it. If some Record of the Store has the id of \<open>b\<close>, \<open>add_book\<close> returns False
  and leaves the list as it is; the model has no error branch, as the source raises
  nothing. When the ids of the Store are distinct, there is then exactly one Record with
  that id, the one that was there. Otherwise \<open>add_book\<close> appends \<open>b\<close> and returns True;
  a second Record with the same id is then refused, and the only Record with that id is
  \<open>b\<close>, the first. \<open>add_book\<close> keeps distinct ids distinct, so they are distinct in
  every Store built from the empty one by adding; \<open>load_catalog\<close> checks no ids.
\<close>

theorem add_book_duplicate:
  "trimmed (isbn b) \<Longrightarrow>
     (isbn b \<in> isbn ` set books \<longrightarrow>
        add_book books b = (False, books) \<and>
        (distinct (map isbn books) \<longrightarrow>
           (\<exists>r. filter (\<lambda>x. isbn x = isbn b) books = [r] \<and> search_by_isbn books (isbn b) = Some r))) \<and>
     (isbn b \<notin> isbn ` set books \<longrightarrow>
        add_book books b = (True, books @ [b]) \<and>
        (\<forall>b'. isbn b' = isbn b \<longrightarrow>
           add_book (books @ [b]) b' = (False, books @ [b]) \<and>
           filter (\<lambda>x. isbn x = isbn b) (books @ [b]) = [b])) \<and>
     (distinct (map isbn books) \<longrightarrow> distinct (map isbn (snd (add_book books b))))"
proof -
  assume t: "trimmed (isbn b)"
  then have s: "strip (isbn b) = isbn b" by (simp add: strip_eq_iff_trimmed)
  have dup: "add_book books b = (False, books)" if "isbn b \<in> isbn ` set books"
    using that s by (simp add: add_book_def search_by_isbn_None)
  have one: "\<exists>r. filter (\<lambda>x. isbn x = isbn b) books = [r] \<and> search_by_isbn books (isbn b) = Some r"
    if "isbn b \<in> isbn ` set books" "distinct (map isbn books)"
  proof -
    from that(1) obtain r where r: "r \<in> set books" "isbn r = isbn b" by auto
    from filter_distinct_key [OF that(2) r(1)] find_distinct_key [OF that(2) r(1)] r(2) s
    show ?thesis by (simp add: search_by_isbn_find)
  qed
  have fresh: "add_book books b = (True, books @ [b])" if "isbn b \<notin> isbn ` set books"
    using that s by (simp add: add_book_def search_by_isbn_None)
  have again: "add_book (books @ [b]) b' = (False, books @ [b])" if "isbn b' = isbn b" for b'
    using that s by (simp add: add_book_def search_by_isbn_None)
  have only: "filter (\<lambda>x. isbn x = isbn b) (books @ [b]) = [b]" if "isbn b \<notin> isbn ` set books"
  proof -
    from that have "\<forall>x \<in> set books. isbn x \<noteq> isbn b" by (metis imageI)
    then have "filter (\<lambda>x. isbn x = isbn b) books = []" by (simp add: filter_empty_conv)
    then show ?thesis by simp
  qed
  have keep: "distinct (map isbn (snd (add_book books b)))" if "distinct (map isbn books)"
    using t that by (rule add_book_distinct)
  from dup one fresh again only keep show ?thesis by blast
qed

text \<open>Go is added to the empty Store; a second Book with the id 111 is refused, and the
  Store still holds Go alone.\<close>

theorem add_book_duplicate_witness:
  "trimmed ''111''
   \<and> add_book [] (go_book ''available'') = (True, [go_book ''available''])
   \<and> add_book [go_book ''available''] rust_book = (False, [go_book ''available''])
   \<and> filter (\<lambda>x. isbn x = ''111'') [go_book ''available''] = [go_book ''available'']
   \<and> search_by_isbn [go_book ''available''] ''111'' = Some (go_book ''available'')
   \<and> distinct (map isbn [go_book ''available''])"
proof -
  have t: "trimmed (isbn (go_book ''available''))" "trimmed (isbn rust_book)"
    by (simp_all add: go_book_def rust_book_def trimmed_def py_isspace_def)
  have i: "isbn rust_book = ''111''" "isbn (go_book ''available'') = ''111''"
    by (simp_all add: go_book_def rust_book_def)
  from add_book_duplicate [OF t(1), of "[]"] add_book_duplicate [OF t(2), of "[go_book ''available'']"]
  show ?thesis using t i by auto
qed

text \<open>
  Claim C3 as stated fails: loading the catalog in which Go and Rust in Action both
  have the id 111 gives a Store of two Records. Adding a third Record with the id 111
  is refused and the list is left as it is, and it holds two Records with that id, not
  exactly one.
\<close>

theorem loaded_duplicates_counterexample:
  "books_after (LibraryInventory_init json_loads None 0
      \<lparr>catalog = Text twice_text, backup = Absent\<rparr>)
     = [go_book ''available'', rust_book]
   \<and> isbn (go_book ''issued'') = ''111''
   \<and> add_book [go_book ''available'', rust_book] (go_book ''issued'')
     = (False, [go_book ''available'', rust_book])
   \<and> map isbn (snd (add_book [go_book ''available'', rust_book] (go_book ''issued'')))
     = [''111'', ''111'']"
  by code_simp

lemma starts_with_iff: "starts_with q t \<longleftrightarrow> (\<exists>post. t = q @ post)"
  by (induction q t rule: starts_with.induct) auto

lemma py_in_iff: "py_in q t \<longleftrightarrow> (\<exists>pre post. t = pre @ q @ post)"
proof (induction t)
  case Nil
  then show ?case by simp
next
  case (Cons d t)
  show ?case
  proof
    assume "py_in q (d # t)"
    then consider "starts_with q (d # t)" | "py_in q t" by auto
    then show "\<exists>pre post. d # t = pre @ q @ post"
    proof cases
      case 1
      then obtain post where "d # t = [] @ q @ post" by (auto simp: starts_with_iff)
      then show ?thesis by blast
    next
      case 2
      with Cons.IH obtain pre post where "t = pre @ q @ post" by blast
      then have "d # t = (d # pre) @ q @ post" by simp
      then show ?thesis by blast
    qed
  next
    assume "\<exists>pre post. d # t = pre @ q @ post"
    then obtain pre post where e: "d # t = pre @ q @ post" by blast
    show "py_in q (d # t)"
    proof (cases pre)
      case Nil
      with e have "starts_with q (d # t)" by (auto simp: starts_with_iff)
      then show ?thesis by simp
    next
      case (Cons p ps)
      with e have "t = ps @ q @ post" by simp
      with Cons.IH have "py_in q t" by blast
      then show ?thesis by simp
    qed
  qed
qed

text \<open>
  Claim C8, as the code has it. \<open>search_by_title\<close> strips the query first: it returns,
  in the order of the Store, exactly the Records whose title contains the stripped query
  as a substring when case is ignored. A query that is empty or all white space
  therefore returns every Record.
\<close>

theorem search_by_title_spec:
  "search_by_title books q = filter (\<lambda>b. ci_substring (strip q) (title b)) books \<and>
   (strip q = [] \<longrightarrow> search_by_title books q = books)"
proof -
  have "py_in [] t" for t unfolding py_in_iff by (metis append_Nil)
  then show ?thesis
    by (simp add: search_by_title_def ci_substring_def py_in_iff lower_def)
qed

text \<open>The empty query and the query of two spaces on a Store of three Records.\<close>

theorem search_by_title_spec_witness:
  "strip '''' = []
   \<and> search_by_title [go_book ''available'', atlas_book ''available'', rust_book] ''''
       = [go_book ''available'', atlas_book ''available'', rust_book]
   \<and> search_by_title [go_book ''available'', atlas_book ''available'', rust_book] ''  ''
       = [go_book ''available'', atlas_book ''available'', rust_book]"
proof -
  let ?bs = "[go_book ''available'', atlas_book ''available'', rust_book]"
  have e: "strip '''' = []" "strip ''  '' = []" by (simp_all add: str_eval)
  from search_by_title_spec [of ?bs "''''"] e(1) have "search_by_title ?bs '''' = ?bs" by blast
  moreover
  from search_by_title_spec [of ?bs "''  ''"] e(2) have "search_by_title ?bs ''  '' = ?bs" by blast
  ultimately show ?thesis using e(1) by simp
qed

text \<open>
  Claim C8 as stated fails: the query of a space followed by go finds the title Go,
  although the query, lower-cased, does not occur in the lower-cased title.
\<close>

theorem search_by_title_trims_counterexample:
  "search_by_title [go_book ''available''] '' go'' = [go_book ''available'']
   \<and> \<not> py_in (lower '' go'') (lower (title (go_book ''available'')))"
  by code_simp

subsection \<open>Construction at the command line\<close>

lemma lower_available: "lower (strip ''available'') = ''available''"
  by (simp add: str_eval)

lemma input_nonempty_Inr:
  "input_nonempty stdin = (Inr v, rest) \<Longrightarrow> v \<noteq> [] \<and> trimmed v \<and> (\<exists>l \<in> set stdin. v = strip l)"
proof (induction stdin)
  case Nil
  then show ?case by simp
next
  case (Cons l ls)
  show ?case
  proof (cases "strip l = []")
    case True
    with Cons show ?thesis by (simp add: Let_def)
  next
    case False
    with Cons.prems have "v = strip l" by (simp add: Let_def)
    with False show ?thesis by (simp add: trimmed_strip)
  qed
qed

text \<open>\<open>input_nonempty\<close> returns the first line that is not blank, stripped, and raises
  EOFError when there is none.\<close>

lemma input_nonempty_total:
  "input_nonempty stdin =
     (case dropWhile (\<lambda>l. strip l = []) stdin of
        [] \<Rightarrow> (Inl EOFError, [])
      | l # rest \<Rightarrow> (Inr (strip l), rest))"
  by (induction stdin) (simp_all add: Let_def)

lemma add_book_cli_result:
  assumes run: "add_book_cli books stdin = (res, books', rest)"
  shows "books' = books \<or>
      (res = Inr BookAdded \<and>
       (\<exists>b. books' = books @ [b] \<and>
            title b \<noteq> [] \<and> trimmed (title b) \<and>
            author b \<noteq> [] \<and> trimmed (author b) \<and>
            isbn b \<noteq> [] \<and> trimmed (isbn b) \<and> status b = ''available''))"
proof (cases "books' = books")
  case True
  then show ?thesis by simp
next
  case False
  from run False obtain t1 r1 a1 r2 i1 r3 l r4
    where t1: "input_nonempty stdin = (Inr t1, r1)"
      and a1: "input_nonempty r1 = (Inr a1, r2)"
      and i1: "input_nonempty r2 = (Inr i1, r3)"
      and r3: "r3 = l # r4"
    by (auto simp: add_book_cli_def split: prod.splits sum.splits list.splits)
  let ?c = "if lower (strip l) = ''y'' then ReferenceBook else Book"
  let ?b = "\<lparr>title = strip t1, author = strip a1, isbn = strip i1,
             status = lower (strip ''available''), cls = ?c\<rparr>"
  from run t1 a1 i1 r3 False
  have res: "res = Inr BookAdded" and bs: "books' = books @ [?b]"
    using add_book_cases [of books ?b]
    by (auto simp: add_book_cli_def Book_init_str Let_def split: if_splits)
  from input_nonempty_Inr [OF t1] input_nonempty_Inr [OF a1] input_nonempty_Inr [OF i1]
  have "t1 \<noteq> []" "trimmed t1" "a1 \<noteq> []" "trimmed a1" "i1 \<noteq> []" "trimmed i1" by simp_all
  then have "strip t1 = t1" "strip a1 = a1" "strip i1 = i1"
    by (simp_all add: strip_eq_iff_trimmed)
  with \<open>t1 \<noteq> []\<close> \<open>trimmed t1\<close> \<open>a1 \<noteq> []\<close> \<open>trimmed a1\<close> \<open>i1 \<noteq> []\<close> \<open>trimmed i1\<close> res bs
  show ?thesis by (simp add: lower_available)
qed

text \<open>
  Claim C9, as the code has it. The constructor validates nothing: on strings it never
  fails and stores the stripped title, author and id, empty or not. Blank values are
  kept out by \<open>input_nonempty\<close>, which only returns a stripped line that is not empty,
  so \<open>add_book_cli\<close> either leaves the Store as it is or appends one available Record
  whose title, author and id are trimmed and not empty.
\<close>

theorem add_book_cli_fields:
  "Book_init c (JStr t) (JStr a) (JStr i) (JStr s)
     = Inr \<lparr>title = strip t, author = strip a, isbn = strip i, status = lower (strip s), cls = c\<rparr> \<and>
   (\<forall>v rest. input_nonempty stdin = (Inr v, rest) \<longrightarrow> v \<noteq> [] \<and> trimmed v) \<and>
   (\<forall>res books' rest. add_book_cli books stdin = (res, books', rest) \<longrightarrow>
      books' = books \<or>
      (res = Inr BookAdded \<and>
       (\<exists>b. books' = books @ [b] \<and>
            title b \<noteq> [] \<and> trimmed (title b) \<and>
            author b \<noteq> [] \<and> trimmed (author b) \<and>
            isbn b \<noteq> [] \<and> trimmed (isbn b) \<and> status b = ''available'')))"
  using Book_init_str input_nonempty_Inr add_book_cli_result by blast

text \<open>Blank lines are skipped and the entries stripped: the lines below add the Book
  Go, available, to the empty Store.\<close>

theorem add_book_cli_fields_witness:
  "add_book_cli [] ['''', '' Go '', ''A'', ''  '', ''111 '', ''n'']
     = (Inr BookAdded, [go_book ''available''], [])
   \<and> go_book ''available''
     = \<lparr>title = ''Go'', author = ''A'', isbn = ''111'', status = ''available'', cls = Book\<rparr>
   \<and> input_nonempty ['''', '' Go '', ''A''] = (Inr ''Go'', [''A''])"
proof -
  have run: "add_book_cli [] ['''', '' Go '', ''A'', ''  '', ''111 '', ''n'']
     = (Inr BookAdded, [go_book ''available''], [])"
    by code_simp
  have inp: "input_nonempty ['''', '' Go '', ''A''] = (Inr ''Go'', [''A''])"
    by code_simp
  from add_book_cli_fields [of Book "''Go''" "''A''" "''111''" "''available''"
      "['''', '' Go '', ''A'']" "[]"] run inp
  show ?thesis by (simp add: go_book_def)
qed

text \<open>
  Claim C9 as stated fails: constructing with an empty title, a blank author and an
  empty id gives a Record, \<open>add_book\<close> puts it into the Store, and so does loading a
  catalog that holds it.
\<close>

theorem empty_fields_accepted_counterexample:
  "Book_init Book (JStr '''') (JStr ''  '') (JStr '''') (JStr ''available'') = Inr blank_book
   \<and> title blank_book = [] \<and> author blank_book = [] \<and> isbn blank_book = []
   \<and> add_book [] blank_book = (True, [blank_book])
   \<and> LibraryInventory_init json_loads None 0 \<lparr>catalog = Text blank_text, backup = Absent\<rparr>
     = \<lparr>returned = Inr True, books_after = [blank_book],
        disk_after = \<lparr>catalog = Text blank_text, backup = Absent\<rparr>, console = []\<rparr>"
  by code_simp

subsection \<open>Reference books\<close>

lemma refs_available_update:
  "refs_available bs \<Longrightarrow> (cls b' = ReferenceBook \<longrightarrow> status b' = ''available'')
     \<Longrightarrow> refs_available (bs[k := b'])"
  unfolding refs_available_def
  by (metis insertE set_update_subset_insert subsetD)

lemma refs_available_snoc:
  "refs_available bs \<Longrightarrow> (cls b' = ReferenceBook \<longrightarrow> status b' = ''available'')
     \<Longrightarrow> refs_available (bs @ [b'])"
  unfolding refs_available_def by auto

lemma issue_cls: "cls (snd (issue b)) = cls b"
  by (simp add: issue_def split: book_class.splits)

lemma return_book_available: "status (snd (return_book b)) = ''available''"
  by (simp add: return_book_def is_available_def)

lemma refs_available_issue_cli:
  assumes "refs_available books"
  shows "refs_available (fst (snd (issue_book_cli books stdin)))"
proof (cases "input_nonempty stdin")
  case (Pair r rest)
  show ?thesis
  proof (cases r)
    case (Inl e)
    with Pair assms show ?thesis by (simp add: issue_book_cli_def)
  next
    case (Inr q)
    show ?thesis
    proof (cases "isbn_index books (strip q)")
      case None
      with Pair Inr assms show ?thesis by (simp add: issue_book_cli_def)
    next
      case (Some k)
      show ?thesis
      proof (cases "cls (books ! k) = ReferenceBook")
        case True
        with Pair Inr Some assms show ?thesis by (simp add: issue_book_cli_def)
      next
        case False
        then have "cls (snd (issue (books ! k))) \<noteq> ReferenceBook" by (simp add: issue_cls)
        with assms have "refs_available (books[k := snd (issue (books ! k))])"
          by (intro refs_available_update) simp_all
        with Pair Inr Some False show ?thesis
          by (auto simp: issue_book_cli_def split: prod.splits bool.splits)
      qed
    qed
  qed
qed

lemma refs_available_return_cli:
  assumes "refs_available books"
  shows "refs_available (fst (snd (return_book_cli books stdin)))"
proof (cases "input_nonempty stdin")
  case (Pair r rest)
  show ?thesis
  proof (cases r)
    case (Inl e)
    with Pair assms show ?thesis by (simp add: return_book_cli_def)
  next
    case (Inr q)
    show ?thesis
    proof (cases "isbn_index books (strip q)")
      case None
      with Pair Inr assms show ?thesis by (simp add: return_book_cli_def)
    next
      case (Some k)
      from assms have "refs_available (books[k := snd (return_book (books ! k))])"
        by (intro refs_available_update) (simp_all add: return_book_available)
      with Pair Inr Some show ?thesis
        by (auto simp: return_book_cli_def split: prod.splits bool.splits)
    qed
  qed
qed

lemma refs_available_add_cli:
  assumes "refs_available books"
  shows "refs_available (fst (snd (add_book_cli books stdin)))"
proof -
  obtain res books' rest where run: "add_book_cli books stdin = (res, books', rest)"
    by (cases "add_book_cli books stdin") auto
  from add_book_cli_result [OF run]
  consider "books' = books" | b where "books' = books @ [b]" "status b = ''available''"
    by blast
  then have "refs_available books'"
    using assms by cases (simp_all add: refs_available_snoc)
  with run show ?thesis by simp
qed

text \<open>
  Claim C2, as the code has it. \<open>issue\<close> leaves a ReferenceBook as it is, whatever its
  status, and \<open>return_book\<close> leaves it a ReferenceBook that is available. So when every
  ReferenceBook of the Store is available, this is still so after adding, issuing and
  returning at the command line, where a ReferenceBook is constructed with the status
  available. The constructor and \<open>from_dict\<close> store the status they are given.
\<close>

theorem reference_status_kept:
  "(cls b = ReferenceBook \<longrightarrow>
      issue b = (False, b) \<and>
      status (snd (return_book b)) = ''available'' \<and> cls (snd (return_book b)) = ReferenceBook) \<and>
   (refs_available books \<longrightarrow>
      refs_available (fst (snd (add_book_cli books stdin))) \<and>
      refs_available (fst (snd (issue_book_cli books stdin))) \<and>
      refs_available (fst (snd (return_book_cli books stdin))))"
  using refs_available_add_cli refs_available_issue_cli refs_available_return_cli
  by (simp add: issue_def return_book_def is_available_def)

text \<open>An issued Atlas is not changed by \<open>issue\<close> and made available by \<open>return_book\<close>;
  in a Store with an available Atlas, issuing the id 9 is refused.\<close>

theorem reference_status_kept_witness:
  "cls (atlas_book ''issued'') = ReferenceBook
   \<and> issue (atlas_book ''issued'') = (False, atlas_book ''issued'')
   \<and> return_book (atlas_book ''issued'') = (True, atlas_book ''available'')
   \<and> refs_available [atlas_book ''available'', go_book ''available'']
   \<and> issue_book_cli [atlas_book ''available'', go_book ''available''] [''9'']
       = (Inr ReferenceNotIssued, [atlas_book ''available'', go_book ''available''], [])
   \<and> refs_available (fst (snd (issue_book_cli [atlas_book ''available'', go_book ''available''] [''111''])))"
proof -
  have r: "refs_available [atlas_book ''available'', go_book ''available'']"
    by (simp add: refs_available_def atlas_book_def go_book_def)
  have c: "cls (atlas_book ''issued'') = ReferenceBook" by (simp add: atlas_book_def)
  have i: "issue_book_cli [atlas_book ''available'', go_book ''available''] [''9'']
       = (Inr ReferenceNotIssued, [atlas_book ''available'', go_book ''available''], [])"
    by code_simp
  have ret: "return_book (atlas_book ''issued'') = (True, atlas_book ''available'')"
    by code_simp
  from reference_status_kept [of "atlas_book ''issued''"
      "[atlas_book ''available'', go_book ''available'']" "[''111'']"] r c i ret
  show ?thesis by simp
qed

text \<open>
  Claim C2 as stated fails: the constructor builds a ReferenceBook with the status
  issued, \<open>from_dict\<close> decodes one, and loading a catalog that holds one puts it into
  the Store.
\<close>

theorem reference_issued_counterexample:
  "Book_init ReferenceBook (JStr ''Atlas'') (JStr ''R'') (JStr ''9'') (JStr ''issued'')
     = Inr (atlas_book ''issued'')
   \<and> cls (atlas_book ''issued'') = ReferenceBook \<and> status (atlas_book ''issued'') = ''issued''
   \<and> from_dict (JObj [(''title'', JStr ''Atlas''), (''author'', JStr ''R''), (''isbn'', JStr ''9''),
                      (''status'', JStr ''issued''), (''type'', JStr ''ReferenceBook'')])
     = Inr (atlas_book ''issued'')
   \<and> books_after (LibraryInventory_init json_loads None 0
        \<lparr>catalog = Text atlas_issued_text, backup = Absent\<rparr>)
     = [atlas_book ''issued'']"
  by code_simp

subsection \<open>Loading a corrupted catalog\<close>

lemma corrupt_text_not_json: "json_loads corrupt_text = None"
  by code_simp

text \<open>
  Claim C4, as the code has it. Let the catalog file hold a text that is not blank and
  that the decoder rejects. Then \<open>load_catalog\<close> itself prints the error and the offer
  and calls \<open>input\<close>, and carries out the answer: r overwrites the file with the empty
  list, b moves the file to the backup path, writes the text there and writes a new
  empty catalog, any other line aborts and leaves the disk as it is. The list of the
  inventory is never partly filled: it is empty when \<open>load_catalog\<close> returns True, and
  what it was before the call otherwise (when a file operation fails and False is
  returned, or when \<open>input\<close> raises at the end of the input). A new inventory starts
  from the empty list, so its list is empty in every case.
\<close>

theorem load_catalog_corrupt:
  "catalog d = Text raw \<Longrightarrow> strip raw \<noteq> [] \<Longrightarrow> loads raw = None \<Longrightarrow>
   (let r = load_catalog loads answer ok_ops d books
    in take 3 (console r) = [Print CorruptedError, Print ResetOrBackupOffer, Input] \<and>
       (returned r = Inr True \<longrightarrow> books_after r = []) \<and>
       (returned r \<noteq> Inr True \<longrightarrow> books_after r = books) \<and>
       (answer = None \<longrightarrow> returned r = Inl EOFError \<and> disk_after r = d) \<and>
       (\<forall>l. answer = Some l \<and> lower (strip l) = ''r'' \<and> 1 \<le> ok_ops \<longrightarrow>
          returned r = Inr True \<and> disk_after r = d\<lparr>catalog := Text ''[]''\<rparr>) \<and>
       (\<forall>l. answer = Some l \<and> lower (strip l) = ''b'' \<and> 3 \<le> ok_ops \<longrightarrow>
          returned r = Inr True \<and> disk_after r = \<lparr>catalog = Text ''[]'', backup = Text raw\<rparr>) \<and>
       (\<forall>l. answer = Some l \<and> lower (strip l) \<noteq> ''r'' \<and> lower (strip l) \<noteq> ''b'' \<longrightarrow>
          returned r = Inr True \<and> disk_after r = d)) \<and>
   books_after (LibraryInventory_init loads answer ok_ops d) = []"
  by (cases answer)
     (auto simp: load_catalog_def on_json_decode_error_def LibraryInventory_init_def Let_def)

text \<open>The text that is not JSON, answered with b while every file operation succeeds:
  the list that held Go is emptied, the text is in the backup and the catalog is new.\<close>

theorem load_catalog_corrupt_witness:
  "catalog \<lparr>catalog = Text corrupt_text, backup = Absent\<rparr> = Text corrupt_text
   \<and> strip corrupt_text \<noteq> [] \<and> json_loads corrupt_text = None
   \<and> load_catalog json_loads (Some ''b'') 3 \<lparr>catalog = Text corrupt_text, backup = Absent\<rparr>
        [go_book ''available'']
       = \<lparr>returned = Inr True, books_after = [],
          disk_after = \<lparr>catalog = Text ''[]'', backup = Text corrupt_text\<rparr>,
          console = [Print CorruptedError, Print ResetOrBackupOffer, Input, Print BackedUp]\<rparr>"
proof -
  let ?d = "\<lparr>catalog = Text corrupt_text, backup = Absent\<rparr>"
  have h: "catalog ?d = Text corrupt_text" "strip corrupt_text \<noteq> []"
    by (simp_all add: corrupt_text_def str_eval)
  have run: "load_catalog json_loads (Some ''b'') 3 ?d [go_book ''available'']
       = \<lparr>returned = Inr True, books_after = [],
          disk_after = \<lparr>catalog = Text ''[]'', backup = Text corrupt_text\<rparr>,
          console = [Print CorruptedError, Print ResetOrBackupOffer, Input, Print BackedUp]\<rparr>"
    by code_simp
  from load_catalog_corrupt [where d = ?d and raw = corrupt_text and loads = json_loads
      and answer = "Some ''b''" and ok_ops = 3 and books = "[go_book ''available'']"]
    h corrupt_text_not_json run
  show ?thesis by simp
qed

text \<open>
  Claim C4 as stated fails: on the text that is not JSON \<open>load_catalog\<close> prints two
  lines, prompts, and prints the outcome; and on the answer R it overwrites the catalog
  file itself.
\<close>

theorem load_catalog_prompts_counterexample:
  "json_loads corrupt_text = None
   \<and> console (load_catalog json_loads (Some ''x'') 3
               \<lparr>catalog = Text corrupt_text, backup = Absent\<rparr> [])
       = [Print CorruptedError, Print ResetOrBackupOffer, Input, Print AbortedLoad]
   \<and> disk_after (load_catalog json_loads (Some ''R'') 3
               \<lparr>catalog = Text corrupt_text, backup = Absent\<rparr> [])
       = \<lparr>catalog = Text ''[]'', backup = Absent\<rparr>"
  by code_simp

subsection \<open>The scenario of the Book Go\<close>


end
